theory Spec2Isabelle
  imports Main "HOL-Library.Word" "HOL-Library.Multiset"
begin

section \<open>Python values\<close>

text \<open>
  A Python \<open>str\<close> is a sequence of Unicode code points, so it is modelled as a list of
  natural numbers (one per code point), not as an Isabelle \<open>string\<close>, whose characters are
  bytes. \<open>bytes\<close> is a list of 8-bit words.
\<close>

type_synonym ustr = "nat list"

type_synonym byte = "8 word"

definition ascii :: "string \<Rightarrow> ustr" where
  "ascii cs = map of_char cs"

text \<open>
  The values that can meet \<open>sanitize_text\<close>: a cell read by pandas is a \<open>str\<close>, a number, or
  the float NaN of an empty cell; \<open>None\<close> and lists stand for any other caller.
\<close>

datatype pyval =
    PyNone
  | PyBool bool
  | PyInt int
  | PyNaN
  | PyStr ustr
  | PyList "pyval list"

datatype pyerror =
    UnicodeEncodeError
  | FileNotFoundError
  | ParserError

fun isinstance_str :: "pyval \<Rightarrow> bool" where
  "isinstance_str (PyStr s) = True"
| "isinstance_str v = False"

section \<open>The library calls of \<open>sanitize_text\<close>\<close>

text \<open>
  \<open>str.replace(old, new)\<close> without a count: a left-to-right scan that replaces every
  non-overlapping occurrence of \<open>old\<close>. With an empty \<open>old\<close> Python puts \<open>new\<close> before every
  character and at the end.
\<close>

function replace_scan :: "ustr \<Rightarrow> ustr \<Rightarrow> ustr \<Rightarrow> ustr" where
  "replace_scan old new [] = []"
| "replace_scan old new (c # cs) =
     (if old \<noteq> [] \<and> take (length old) (c # cs) = old
      then new @ replace_scan old new (drop (length old) (c # cs))
      else c # replace_scan old new cs)"
  by pat_completeness auto
termination
  by (relation "measure (\<lambda>(old, new, s). length s)") (auto simp: neq_Nil_conv)

definition str_replace :: "ustr \<Rightarrow> ustr \<Rightarrow> ustr \<Rightarrow> ustr" where
  "str_replace s old new =
     (if old = [] then new @ concat (map (\<lambda>c. c # new) s) else replace_scan old new s)"

text \<open>
  \<open>str.encode("latin-1", errors)\<close>: Latin-1 has one byte for each code point up to 255.
  A code point above 255 raises under \<open>"strict"\<close> and is left out under \<open>"ignore"\<close>.
  \<open>bytes.decode("latin-1")\<close> maps every byte to the code point of the same number and
  cannot fail.
\<close>

datatype errors = Strict | Ignore

fun encode_latin1 :: "errors \<Rightarrow> ustr \<Rightarrow> pyerror + byte list" where
  "encode_latin1 Strict s =
     (if list_all (\<lambda>c. c \<le> 255) s then Inr (map of_nat s) else Inl UnicodeEncodeError)"
| "encode_latin1 Ignore s = Inr (map of_nat (filter (\<lambda>c. c \<le> 255) s))"

definition decode_latin1 :: "byte list \<Rightarrow> ustr" where
  "decode_latin1 bs = map unat bs"

section \<open>The sanitizer\<close>

text \<open>
  The dictionary \<open>replacements\<close> of \<open>sanitize_text\<close>, in insertion order (the order in which
  \<open>items()\<close> yields it): rupee sign, en dash, em dash, right and left single quotation mark,
  left and right double quotation mark. The values are \<open>Rs\<close>, the hyphen (0x2D), the
  apostrophe (0x27) and the double quote (0x22).
\<close>

definition replacements :: "(ustr \<times> ustr) list" where
  "replacements =
     [([0x20B9], ascii ''Rs''),
      ([0x2013], [0x2D]),
      ([0x2014], [0x2D]),
      ([0x2019], [0x27]),
      ([0x2018], [0x27]),
      ([0x201C], [0x22]),
      ([0x201D], [0x22])]"

text \<open>The loop \<open>for k, v in rules: text = text.replace(k, v)\<close>.\<close>

definition apply_rules :: "(ustr \<times> ustr) list \<Rightarrow> ustr \<Rightarrow> ustr" where
  "apply_rules rules text = foldl (\<lambda>t (k, v). str_replace t k v) text rules"

fun sanitize_text :: "pyval \<Rightarrow> pyerror + ustr" where
  "sanitize_text (PyStr text) =
     (case encode_latin1 Ignore (apply_rules replacements text) of
        Inl e \<Rightarrow> Inl e
      | Inr bs \<Rightarrow> Inr (decode_latin1 bs))"
| "sanitize_text v = Inr []"

text \<open>
  The substitution table as the specification words it, one character at a time.
\<close>

definition spec_substitute :: "nat \<Rightarrow> ustr" where
  "spec_substitute c =
     (if c = 0x20B9 then ascii ''Rs''
      else if c = 0x2013 \<or> c = 0x2014 then ascii ''-''
      else if c = 0x2019 \<or> c = 0x2018 then [0x27]
      else if c = 0x201C \<or> c = 0x201D then [0x22]
      else [c])"

definition trigger_chars :: "nat list" where
  "trigger_chars = [0x20B9, 0x2013, 0x2014, 0x2019, 0x2018, 0x201C, 0x201D]"

text \<open>
  A rule table is well formed when every key is a single character and no rule's output
  contains the key of any rule of the table. \<open>rule_subst\<close> is what such a table does to
  one character.
\<close>

definition rules_ok :: "(ustr \<times> ustr) list \<Rightarrow> bool" where
  "rules_ok rules =
     list_all (\<lambda>(k, v). length k = 1 \<and> list_all (\<lambda>(k', v'). \<not> (set k' \<subseteq> set v)) rules) rules"

definition rule_subst :: "(ustr \<times> ustr) list \<Rightarrow> nat \<Rightarrow> ustr" where
  "rule_subst rules c = (case map_of rules [c] of None \<Rightarrow> [c] | Some v \<Rightarrow> v)"

section \<open>Decimal strings\<close>

text \<open>
  \<open>str(n)\<close> of an integer, and the same conversion inside an f-string: the decimal digits,
  most significant first, after a minus sign when the number is negative.
\<close>

function str_nat :: "nat \<Rightarrow> ustr" where
  "str_nat n = (if n < 10 then [0x30 + n] else str_nat (n div 10) @ [0x30 + n mod 10])"
  by pat_completeness auto
termination
  by (relation "measure (\<lambda>n. n)") auto

declare str_nat.simps [simp del]

definition str_int :: "int \<Rightarrow> ustr" where
  "str_int i = (if i < 0 then 0x2D # str_nat (nat (- i)) else str_nat (nat i))"

text \<open>Reading a digit string back, to say what a decimal string is.\<close>

definition decimal_value :: "ustr \<Rightarrow> nat" where
  "decimal_value ds = foldl (\<lambda>acc d. 10 * acc + (d - 0x30)) 0 ds"

definition is_digit :: "nat \<Rightarrow> bool" where
  "is_digit d = (0x30 \<le> d \<and> d \<le> 0x39)"

section \<open>The two datasets\<close>

text \<open>
  A row of \<open>trending_topics.csv\<close> as the report reads it (only the column \<open>title\<close>) and a row
  of \<open>word_frequency_table.csv\<close> (\<open>word\<close>, and the integer column \<open>frequency\<close>). A text cell is
  a \<open>pyval\<close>: pandas gives a \<open>str\<close>, or NaN for an empty cell.
\<close>

record trending_topic =
  title :: pyval

record word_frequency =
  word :: pyval
  frequency :: int

section \<open>The document under construction\<close>

text \<open>
  The text argument of a draw call is kept as the expression the call site evaluates, so
  that the trace of a document records which strings came out of \<open>sanitize_text\<close>:
  a string literal, \<open>sanitize_text(v)\<close>, \<open>str(n)\<close> of an integer (also \<open>{n}\<close> in an f-string),
  and \<open>a + b\<close>. \<open>text_value\<close> is the string the layout engine receives.
\<close>

datatype text_arg =
    Lit ustr
  | Sanitize pyval
  | Str int
  | Cat text_arg text_arg

fun text_value :: "text_arg \<Rightarrow> pyerror + ustr" where
  "text_value (Lit s) = Inr s"
| "text_value (Sanitize v) = sanitize_text v"
| "text_value (Str n) = Inr (str_int n)"
| "text_value (Cat a b) =
     (case text_value a of
        Inl e \<Rightarrow> Inl e
      | Inr x \<Rightarrow> (case text_value b of Inl e \<Rightarrow> Inl e | Inr y \<Rightarrow> Inr (x @ y)))"

fun via_sanitizer :: "text_arg \<Rightarrow> bool" where
  "via_sanitizer (Sanitize v) = True"
| "via_sanitizer t = False"

text \<open>
  Widths are kept symbolic: \<open>0\<close> (up to the right margin) and tenths of \<open>usable_width\<close>
  (\<open>usable_width\<close>, \<open>usable_width * 0.6\<close>, \<open>usable_width * 0.4\<close>). Heights and font sizes are
  the numbers of the source.
\<close>

datatype width = ToRightMargin | UsableTenths nat

datatype font_style = Regular | Bold

datatype align = AlignLeft | AlignCenter

text \<open>
  One call on the \<open>FPDF\<close> object. \<open>Cell w h text border align newline\<close>: \<open>newline\<close> stands for
  \<open>new_x=XPos.LMARGIN, new_y=YPos.NEXT\<close>. \<open>Ln None\<close> is \<open>ln()\<close>.
\<close>

datatype draw_op =
    SetAutoPageBreak bool nat
  | AddPage
  | SetFont string font_style nat
  | SetY int
  | Ln "nat option"
  | Cell width nat text_arg nat align bool
  | MultiCell width nat text_arg

fun texts_of :: "draw_op \<Rightarrow> text_arg list" where
  "texts_of (Cell w h t b a n) = [t]"
| "texts_of (MultiCell w h t) = [t]"
| "texts_of d = []"

definition draw_texts :: "draw_op list \<Rightarrow> text_arg list" where
  "draw_texts ops = concat (map texts_of ops)"

text \<open>
  The state of the \<open>PDF\<close> object: the number of the current page and the calls made so far,
  oldest first. Automatic page breaks depend on font metrics and are not part of the
  model; when one happens \<open>FPDF\<close> calls \<open>footer\<close> and \<open>header\<close> again between two cells.
\<close>

record pdf =
  page :: nat
  trace :: "draw_op list"

definition emit :: "draw_op \<Rightarrow> pdf \<Rightarrow> pdf" where
  "emit d p = p\<lparr>trace := trace p @ [d]\<rparr>"

definition run :: "(pdf \<Rightarrow> pdf) list \<Rightarrow> pdf \<Rightarrow> pdf" where
  "run steps p = foldl (\<lambda>q step. step q) p steps"

definition header :: "pdf \<Rightarrow> pdf" where
  "header = run
     [emit (SetFont ''Helvetica'' Bold 11),
      emit (Cell ToRightMargin 10 (Lit (ascii ''Trending Topics NLP Analysis Report'')) 0
              AlignCenter True)]"

definition footer :: "pdf \<Rightarrow> pdf" where
  "footer p = run
     [emit (SetY (- 15)),
      emit (SetFont ''Helvetica'' Regular 8),
      emit (Cell ToRightMargin 10 (Cat (Lit (ascii ''Page '')) (Str (int (page p)))) 0
              AlignCenter False)] p"

text \<open>
  \<open>FPDF.add_page\<close>: close the current page with its footer when there is one, start the
  next page, draw its header.
\<close>

definition add_page :: "pdf \<Rightarrow> pdf" where
  "add_page p =
     header (emit AddPage ((if 0 < page p then footer p else p)\<lparr>page := page p + 1\<rparr>))"

section \<open>The report script\<close>

text \<open>The four parts of the block under \<open>if st.button("Generate PDF")\<close>, in source order.\<close>

definition cover_text :: ustr where
  "cover_text = ascii
     (''This report presents an end to end Natural Language Processing analysis '' @
      ''of trending news data using API based collection, TF IDF analysis, and '' @
      ''statistical techniques.'')"

definition cover_page :: "pdf \<Rightarrow> pdf" where
  "cover_page = run
     [add_page,
      emit (SetFont ''Helvetica'' Bold 20),
      emit (Cell ToRightMargin 20 (Lit (ascii ''NLP Based Trending Topics Report'')) 0
              AlignCenter True),
      emit (Ln (Some 10)),
      emit (SetFont ''Helvetica'' Regular 12),
      emit (MultiCell (UsableTenths 10) 8 (Sanitize (PyStr cover_text)))]"

text \<open>The f-string of the summary, with \<open>len(df)\<close> as \<open>n\<close>; 0x0A is the newline.\<close>

definition summary_text :: "nat \<Rightarrow> ustr" where
  "summary_text n =
     ascii ''- Total articles analyzed: '' @ str_int (int n) @ [0x0A] @
     ascii ''- Finance, sports, and global news dominate trends'' @ [0x0A] @
     ascii ''- TF IDF highlights article specific relevance''"

definition executive_summary :: "trending_topic list \<Rightarrow> pdf \<Rightarrow> pdf" where
  "executive_summary df = run
     [add_page,
      emit (SetFont ''Helvetica'' Bold 14),
      emit (Cell ToRightMargin 10 (Lit (ascii ''Executive Summary'')) 0 AlignLeft True),
      emit (SetFont ''Helvetica'' Regular 11),
      emit (MultiCell (UsableTenths 10) 7 (Sanitize (PyStr (summary_text (length df)))))]"

text \<open>The body of \<open>for _, row in word_freq.head(20).iterrows()\<close>, and the loop.\<close>

definition word_frequency_row :: "word_frequency \<Rightarrow> pdf \<Rightarrow> pdf" where
  "word_frequency_row row = run
     [emit (Cell (UsableTenths 6) 8 (Sanitize (word row)) 1 AlignLeft False),
      emit (Cell (UsableTenths 4) 8 (Str (frequency row)) 1 AlignLeft False),
      emit (Ln None)]"

fun word_frequency_rows :: "word_frequency list \<Rightarrow> pdf \<Rightarrow> pdf" where
  "word_frequency_rows [] p = p"
| "word_frequency_rows (row # rows) p = word_frequency_rows rows (word_frequency_row row p)"

definition word_frequency_page :: "word_frequency list \<Rightarrow> pdf \<Rightarrow> pdf" where
  "word_frequency_page word_freq = run
     [add_page,
      emit (SetFont ''Helvetica'' Bold 14),
      emit (Cell ToRightMargin 10 (Lit (ascii ''Word Frequency Analysis'')) 0 AlignLeft True),
      emit (Ln (Some 5)),
      emit (SetFont ''Helvetica'' Bold 10),
      emit (Cell (UsableTenths 6) 8 (Lit (ascii ''Word'')) 1 AlignLeft False),
      emit (Cell (UsableTenths 4) 8 (Lit (ascii ''Frequency'')) 1 AlignLeft False),
      emit (Ln None),
      emit (SetFont ''Helvetica'' Regular 10),
      word_frequency_rows (take 20 word_freq)]"

text \<open>The loop \<open>for title in df["title"]\<close>.\<close>

fun appendix_entries :: "trending_topic list \<Rightarrow> pdf \<Rightarrow> pdf" where
  "appendix_entries [] p = p"
| "appendix_entries (r # rs) p =
     appendix_entries rs
       (emit (MultiCell (UsableTenths 10) 6 (Cat (Lit (ascii ''- '')) (Sanitize (title r)))) p)"

definition appendix_page :: "trending_topic list \<Rightarrow> pdf \<Rightarrow> pdf" where
  "appendix_page df = run
     [add_page,
      emit (SetFont ''Helvetica'' Bold 14),
      emit (Cell ToRightMargin 10 (Lit (ascii ''Appendix: Top Headlines'')) 0 AlignLeft True),
      emit (SetFont ''Helvetica'' Regular 10),
      appendix_entries df]"

definition new_pdf :: pdf where
  "new_pdf = \<lparr>page = 0, trace = []\<rparr>"

text \<open>
  \<open>FPDF.output\<close> closes the last page with its footer (after adding a page when there is
  none); what it writes is the trace.
\<close>

definition pdf_output :: "pdf \<Rightarrow> draw_op list" where
  "pdf_output p = trace (footer (if page p = 0 then add_page p else p))"

definition generate_pdf :: "trending_topic list \<Rightarrow> word_frequency list \<Rightarrow> draw_op list" where
  "generate_pdf df word_freq =
     pdf_output (run
       [emit (SetAutoPageBreak True 15),
        cover_page,
        executive_summary df,
        word_frequency_page word_freq,
        appendix_page df] new_pdf)"

text \<open>
  Every string that reaches the layout engine while a trace is drawn, or the first error
  of evaluating one.
\<close>

fun rendered_texts :: "text_arg list \<Rightarrow> pyerror + ustr list" where
  "rendered_texts [] = Inr []"
| "rendered_texts (t # ts) =
     (case text_value t of
        Inl e \<Rightarrow> Inl e
      | Inr s \<Rightarrow> (case rendered_texts ts of Inl e \<Rightarrow> Inl e | Inr ss \<Rightarrow> Inr (s # ss)))"

text \<open>
  A text argument that cannot carry a character outside Latin-1: a literal of ASCII
  characters, an output of \<open>sanitize_text\<close>, a decimal string, or a concatenation of such.
\<close>

fun encoding_safe :: "text_arg \<Rightarrow> bool" where
  "encoding_safe (Lit s) = list_all (\<lambda>c. c < 128) s"
| "encoding_safe (Sanitize v) = True"
| "encoding_safe (Str n) = True"
| "encoding_safe (Cat a b) = (encoding_safe a \<and> encoding_safe b)"

section \<open>The application\<close>

text \<open>
  The files the script touches. \<open>pd.read_csv\<close> raises on a missing file and on one it
  cannot parse, and returns the table otherwise.
\<close>

datatype 'a csv_file = Missing | Malformed | Table 'a

record disk =
  trending_topics_csv :: "trending_topic list csv_file"
  word_frequency_table_csv :: "word_frequency list csv_file"
  report_pdf :: "draw_op list option"

fun read_csv :: "'a csv_file \<Rightarrow> pyerror + 'a" where
  "read_csv Missing = Inl FileNotFoundError"
| "read_csv Malformed = Inl ParserError"
| "read_csv (Table t) = Inr t"

definition load_data :: "disk \<Rightarrow> pyerror + (trending_topic list \<times> word_frequency list)" where
  "load_data d =
     (case read_csv (trending_topics_csv d) of
        Inl e \<Rightarrow> Inl e
      | Inr df \<Rightarrow>
          (case read_csv (word_frequency_table_csv d) of
             Inl e \<Rightarrow> Inl e
           | Inr word_freq \<Rightarrow> Inr (df, word_freq)))"

text \<open>What the script shows on the page, in order.\<close>

datatype ui_event =
    SetPageConfig
  | Title ustr
  | Write ustr
  | Error ustr
  | Subheader ustr
  | Markdown ustr
  | DataframeTopics "trending_topic list"
  | DataframeWords "word_frequency list"
  | Button ustr
  | Success ustr
  | DownloadButton ustr "draw_op list" string string

text \<open>
  One run of the script: what is on the page, the files afterwards, and whether \<open>st.stop()\<close>
  ended the run. \<open>clicked\<close> is the value of \<open>st.button("Generate PDF")\<close>.
\<close>

record app =
  ui :: "ui_event list"
  files :: disk
  stopped :: bool

definition page_top :: "ui_event list" where
  "page_top =
     [SetPageConfig,
      Title (0x1F4C4 # ascii '' NLP Trending Topics Report Generator''),
      Write (ascii ''Generate an ASCII-safe NLP PDF report from trending news data.'')]"

definition data_preview :: "trending_topic list \<Rightarrow> word_frequency list \<Rightarrow> ui_event list" where
  "data_preview df word_freq =
     [Subheader (0x1F4CA # ascii '' Data Preview''),
      Markdown (ascii ''**Trending Topics**''),
      DataframeTopics (take 5 df),
      Markdown (ascii ''**Word Frequency**''),
      DataframeWords (take 10 word_freq),
      Subheader (0x1F4C4 # ascii '' Generate PDF Report''),
      Button (ascii ''Generate PDF'')]"

definition run_app :: "disk \<Rightarrow> bool \<Rightarrow> app" where
  "run_app d clicked =
     (case load_data d of
        Inl e \<Rightarrow>
          \<lparr>ui = page_top @ [Error (ascii ''CSV files not found or invalid.'')],
           files = d, stopped = True\<rparr>
      | Inr (df, word_freq) \<Rightarrow>
          if clicked then
            (let doc = generate_pdf df word_freq in
             \<lparr>ui = page_top @ data_preview df word_freq @
                  [Success (ascii ''PDF generated successfully!''),
                   DownloadButton (0x2B07 # 0xFE0F # ascii '' Download PDF'') doc
                     ''BEST_ASCII_SAFE_NLP_REPORT.pdf'' ''application/pdf''],
              files = d\<lparr>report_pdf := Some doc\<rparr>, stopped = False\<rparr>)
          else
            \<lparr>ui = page_top @ data_preview df word_freq, files = d, stopped = False\<rparr>)"

fun is_download :: "ui_event \<Rightarrow> bool" where
  "is_download (DownloadButton l data name mime) = True"
| "is_download e = False"

fun is_button :: "ui_event \<Rightarrow> bool" where
  "is_button (Button l) = True"
| "is_button e = False"

section \<open>Reading a trace\<close>

text \<open>
  The calls of \<open>PDF.header\<close> and of \<open>PDF.footer\<close> on page \<open>n\<close>, and the text each of them draws.
\<close>

definition header_ops :: "draw_op list" where
  "header_ops =
     [SetFont ''Helvetica'' Bold 11,
      Cell ToRightMargin 10 (Lit (ascii ''Trending Topics NLP Analysis Report'')) 0
        AlignCenter True]"

definition footer_ops :: "nat \<Rightarrow> draw_op list" where
  "footer_ops n =
     [SetY (- 15),
      SetFont ''Helvetica'' Regular 8,
      Cell ToRightMargin 10 (Cat (Lit (ascii ''Page '')) (Str (int n))) 0 AlignCenter False]"

definition header_text :: text_arg where
  "header_text = Lit (ascii ''Trending Topics NLP Analysis Report'')"

definition footer_text :: "nat \<Rightarrow> text_arg" where
  "footer_text n = Cat (Lit (ascii ''Page '')) (Str (int n))"

text \<open>The calls each part of the script makes after its \<open>add_page\<close>.\<close>

definition cover_ops :: "draw_op list" where
  "cover_ops =
     [SetFont ''Helvetica'' Bold 20,
      Cell ToRightMargin 20 (Lit (ascii ''NLP Based Trending Topics Report'')) 0 AlignCenter True,
      Ln (Some 10),
      SetFont ''Helvetica'' Regular 12,
      MultiCell (UsableTenths 10) 8 (Sanitize (PyStr cover_text))]"

definition summary_ops :: "nat \<Rightarrow> draw_op list" where
  "summary_ops n =
     [SetFont ''Helvetica'' Bold 14,
      Cell ToRightMargin 10 (Lit (ascii ''Executive Summary'')) 0 AlignLeft True,
      SetFont ''Helvetica'' Regular 11,
      MultiCell (UsableTenths 10) 7 (Sanitize (PyStr (summary_text n)))]"

definition table_head_ops :: "draw_op list" where
  "table_head_ops =
     [SetFont ''Helvetica'' Bold 14,
      Cell ToRightMargin 10 (Lit (ascii ''Word Frequency Analysis'')) 0 AlignLeft True,
      Ln (Some 5),
      SetFont ''Helvetica'' Bold 10,
      Cell (UsableTenths 6) 8 (Lit (ascii ''Word'')) 1 AlignLeft False,
      Cell (UsableTenths 4) 8 (Lit (ascii ''Frequency'')) 1 AlignLeft False,
      Ln None,
      SetFont ''Helvetica'' Regular 10]"

definition word_frequency_row_ops :: "word_frequency \<Rightarrow> draw_op list" where
  "word_frequency_row_ops row =
     [Cell (UsableTenths 6) 8 (Sanitize (word row)) 1 AlignLeft False,
      Cell (UsableTenths 4) 8 (Str (frequency row)) 1 AlignLeft False,
      Ln None]"

definition appendix_head_ops :: "draw_op list" where
  "appendix_head_ops =
     [SetFont ''Helvetica'' Bold 14,
      Cell ToRightMargin 10 (Lit (ascii ''Appendix: Top Headlines'')) 0 AlignLeft True,
      SetFont ''Helvetica'' Regular 10]"

definition appendix_entry_op :: "trending_topic \<Rightarrow> draw_op" where
  "appendix_entry_op r = MultiCell (UsableTenths 10) 6 (Cat (Lit (ascii ''- '')) (Sanitize (title r)))"

text \<open>
  The layout engine draws with a core font, which holds Latin-1 only: a string is accepted
  when all its code points are at most 255, that is when a strict Latin-1 encoding succeeds;
  such a string is also one that \<open>sanitize_text\<close> returns unchanged.
\<close>

definition engine_accepts :: "ustr \<Rightarrow> bool" where
  "engine_accepts s =
     (list_all (\<lambda>c. c \<le> 255) s \<and> encode_latin1 Strict s = Inr (map of_nat s)
      \<and> sanitize_text (PyStr s) = Inr s)"

text \<open>A CSV file that \<open>pd.read_csv\<close> can load.\<close>

fun loadable :: "'a csv_file \<Rightarrow> bool" where
  "loadable (Table t) = True"
| "loadable f = False"

text \<open>A headline with an em dash and a rupee sign, and one word with its count.\<close>

definition example_title :: ustr where
  "example_title = ascii ''Markets '' @ [0x2014] @ ascii '' '' @ [0x20B9] @ ascii ''5''"

definition example_topics :: "trending_topic list" where
  "example_topics = [\<lparr>title = PyStr example_title\<rparr>]"

definition example_words :: "word_frequency list" where
  "example_words = [\<lparr>word = PyStr (ascii ''rupee''), frequency = 12\<rparr>]"

section \<open>Properties of the library calls\<close>

lemma replace_scan_single:
  "replace_scan [k] v s = concat (map (\<lambda>c. if c = k then v else [c]) s)"
  by (induction s) auto

lemma str_replace_single:
  "str_replace s [k] v = concat (map (\<lambda>c. if c = k then v else [c]) s)"
  by (simp add: str_replace_def replace_scan_single)

lemma latin1_round_trip:
  "list_all (\<lambda>c. c \<le> 255) s \<Longrightarrow> decode_latin1 (map of_nat s) = s"
  by (induction s) (auto simp: decode_latin1_def unat_of_nat)

lemma latin1_ignore:
  "decode_latin1 (map of_nat (filter (\<lambda>c. c \<le> 255) s)) = filter (\<lambda>c. c \<le> 255) s"
  by (rule latin1_round_trip) (simp add: list_all_iff)

section \<open>The substitution loop, character by character\<close>

lemma rules_ok_Cons: "rules_ok (r # rs) \<Longrightarrow> rules_ok rs"
  by (auto simp: rules_ok_def list_all_iff)

lemma rule_subst_untouched:
  assumes "rules_ok ((k, v) # rs)" and "x \<in> set v"
  shows "rule_subst rs x = [x]"
proof -
  have "map_of rs [x] = None"
  proof (rule ccontr)
    assume "map_of rs [x] \<noteq> None"
    then obtain w where "([x], w) \<in> set rs"
      by (auto dest: map_of_SomeD)
    with assms(1) have "\<not> (set [x] \<subseteq> set v)"
      by (auto simp: rules_ok_def list_all_iff)
    with assms(2) show False by simp
  qed
  then show ?thesis by (simp add: rule_subst_def)
qed

lemma concat_singletons: "(\<And>x. x \<in> set v \<Longrightarrow> f x = [x]) \<Longrightarrow> concat (map f v) = v"
  by (induction v) auto

lemma apply_rules_charwise:
  "rules_ok rules \<Longrightarrow> apply_rules rules s = concat (map (rule_subst rules) s)"
proof (induction rules arbitrary: s)
  case Nil
  show ?case by (simp add: apply_rules_def rule_subst_def)
next
  case (Cons r rs)
  obtain k v where r: "r = (k, v)" by (cases r)
  from Cons.prems r obtain a where k: "k = [a]"
    by (cases k) (auto simp: rules_ok_def)
  have ok: "rules_ok rs" using Cons.prems by (rule rules_ok_Cons)
  have keep: "concat (map (rule_subst rs) v) = v"
    using Cons.prems r by (intro concat_singletons) (simp add: rule_subst_untouched)
  have "apply_rules (r # rs) s = apply_rules rs (str_replace s k v)"
    by (simp add: apply_rules_def r)
  also have "\<dots> = concat (map (rule_subst rs) (concat (map (\<lambda>c. if c = a then v else [c]) s)))"
    by (simp add: Cons.IH [OF ok] k str_replace_single)
  also have "\<dots> = concat (map (\<lambda>c. concat (map (rule_subst rs) (if c = a then v else [c]))) s)"
    by (induction s) simp_all
  also have "\<dots> = concat (map (rule_subst (r # rs)) s)"
  proof -
    have "concat (map (rule_subst rs) (if c = a then v else [c])) = rule_subst (r # rs) c" for c
    proof (cases "c = a")
      case True
      then show ?thesis by (simp add: keep) (simp add: r k rule_subst_def)
    next
      case False
      then show ?thesis by (simp add: r k rule_subst_def)
    qed
    then show ?thesis by simp
  qed
  finally show ?case .
qed

lemma rules_ok_replacements: "rules_ok replacements"
  by (simp add: rules_ok_def replacements_def ascii_def)

lemma rule_subst_replacements: "rule_subst replacements c = spec_substitute c"
  by (simp add: rule_subst_def replacements_def spec_substitute_def ascii_def)

lemma apply_replacements_spec: "apply_rules replacements s = concat (map spec_substitute s)"
  by (simp add: apply_rules_charwise rules_ok_replacements rule_subst_replacements cong: map_cong)

lemma spec_substitute_low: "c \<le> 255 \<Longrightarrow> spec_substitute c = [c]"
  by (simp add: spec_substitute_def)

lemma apply_replacements_low:
  "list_all (\<lambda>c. c \<le> 255) s \<Longrightarrow> apply_rules replacements s = s"
  by (induction s) (simp_all add: apply_replacements_spec spec_substitute_low)

lemma sanitize_text_filter:
  "sanitize_text (PyStr s) = Inr (filter (\<lambda>c. c \<le> 255) (apply_rules replacements s))"
  by (simp add: latin1_ignore)

declare sanitize_text.simps(1) [simp del]

lemma sanitize_text_fixed:
  "list_all (\<lambda>c. c \<le> 255) s \<Longrightarrow> sanitize_text (PyStr s) = Inr s"
  by (simp add: sanitize_text_filter apply_replacements_low list_all_iff)

lemma sanitize_text_low: "sanitize_text x = Inr r \<Longrightarrow> list_all (\<lambda>c. c \<le> 255) r"
  by (cases x) (auto simp: sanitize_text_filter list_all_iff)

section \<open>Decimal strings are decimal\<close>

lemma str_nat_digits: "list_all is_digit (str_nat n)"
proof (induction n rule: str_nat.induct)
  case (1 n)
  show ?case
  proof (cases "n < 10")
    case True
    then show ?thesis by (subst str_nat.simps) (simp add: is_digit_def)
  next
    case False
    have "n mod 10 < 10" by simp
    then have "is_digit (0x30 + n mod 10)" unfolding is_digit_def by linarith
    with False "1.IH" show ?thesis by (subst str_nat.simps) simp
  qed
qed

lemma decimal_value_snoc: "decimal_value (ds @ [d]) = 10 * decimal_value ds + (d - 0x30)"
  by (simp add: decimal_value_def)

lemma decimal_value_str_nat: "decimal_value (str_nat n) = n"
proof (induction n rule: str_nat.induct)
  case (1 n)
  show ?case
  proof (cases "n < 10")
    case True
    then show ?thesis by (subst str_nat.simps) (simp add: decimal_value_def)
  next
    case False
    with "1.IH" show ?thesis by (subst str_nat.simps) (simp add: decimal_value_snoc)
  qed
qed

lemma str_int_nonneg: "str_int (int n) = str_nat n"
  by (simp add: str_int_def)

lemma str_int_latin1: "list_all (\<lambda>c. c \<le> 255) (str_int i)"
proof -
  have "list_all (\<lambda>c. c \<le> 255) (str_nat n)" for n
    using str_nat_digits [of n] by (auto simp: list_all_iff is_digit_def)
  then show ?thesis by (simp add: str_int_def)
qed

section \<open>What reaches the layout engine\<close>

lemma sanitize_text_returns: "\<exists>r. sanitize_text x = Inr r"
  by (cases x) (simp_all add: sanitize_text_filter)

lemma encoding_safe_value:
  "encoding_safe t \<Longrightarrow> \<exists>s. text_value t = Inr s \<and> list_all (\<lambda>c. c \<le> 255) s"
proof (induction t)
  case (Lit s)
  then show ?case by (auto simp: list_all_iff)
next
  case (Sanitize v)
  obtain r where "sanitize_text v = Inr r" using sanitize_text_returns by blast
  then show ?case using sanitize_text_low by auto
next
  case (Str n)
  show ?case by (simp add: str_int_latin1)
next
  case (Cat a b)
  then show ?case by auto
qed

lemma latin1_engine_accepts: "list_all (\<lambda>c. c \<le> 255) s \<Longrightarrow> engine_accepts s"
  by (simp add: engine_accepts_def sanitize_text_fixed)

lemma encoding_safe_rendered:
  "list_all encoding_safe ts \<Longrightarrow> \<exists>ss. rendered_texts ts = Inr ss \<and> list_all engine_accepts ss"
proof (induction ts)
  case Nil
  show ?case by simp
next
  case (Cons t ts)
  then obtain s where "text_value t = Inr s" and "list_all (\<lambda>c. c \<le> 255) s"
    using encoding_safe_value [of t] by auto
  moreover from Cons obtain ss where "rendered_texts ts = Inr ss" and "list_all engine_accepts ss"
    by auto
  ultimately show ?case by (simp add: latin1_engine_accepts)
qed

section \<open>The trace of each part of the script\<close>

lemma draw_texts_append: "draw_texts (a @ b) = draw_texts a @ draw_texts b"
  by (simp add: draw_texts_def)

lemma run_Nil: "run [] p = p"
  by (simp add: run_def)

lemma run_Cons: "run (f # fs) p = run fs (f p)"
  by (simp add: run_def)

lemma trace_emit: "trace (emit d p) = trace p @ [d]"
  by (simp add: emit_def)

lemma page_emit: "page (emit d p) = page p"
  by (simp add: emit_def)

lemmas script_simps = run_Nil run_Cons trace_emit page_emit

lemma trace_header: "trace (header p) = trace p @ header_ops"
  by (simp add: header_def header_ops_def script_simps)

lemma page_header: "page (header p) = page p"
  by (simp add: header_def script_simps)

lemma trace_footer: "trace (footer p) = trace p @ footer_ops (page p)"
  by (simp add: footer_def footer_ops_def script_simps)

lemma page_footer: "page (footer p) = page p"
  by (simp add: footer_def script_simps)

lemma page_add_page: "page (add_page p) = page p + 1"
  by (simp add: add_page_def page_header page_emit)

lemma trace_add_page:
  "trace (add_page p) =
     trace p @ (if 0 < page p then footer_ops (page p) else []) @ AddPage # header_ops"
  by (simp add: add_page_def trace_header trace_emit trace_footer)

lemma trace_word_frequency_rows:
  "trace (word_frequency_rows rows p) = trace p @ concat (map word_frequency_row_ops rows)"
  by (induction rows arbitrary: p)
     (simp_all add: word_frequency_row_def word_frequency_row_ops_def script_simps)

lemma page_word_frequency_rows: "page (word_frequency_rows rows p) = page p"
  by (induction rows arbitrary: p) (simp_all add: word_frequency_row_def script_simps)

lemma trace_appendix_entries:
  "trace (appendix_entries df p) = trace p @ map appendix_entry_op df"
  by (induction df arbitrary: p) (simp_all add: appendix_entry_op_def trace_emit)

lemma page_appendix_entries: "page (appendix_entries df p) = page p"
  by (induction df arbitrary: p) (simp_all add: page_emit)

lemma trace_cover_page: "trace (cover_page p) = trace (add_page p) @ cover_ops"
  by (simp add: cover_page_def cover_ops_def script_simps)

lemma page_cover_page: "page (cover_page p) = page p + 1"
  by (simp add: cover_page_def script_simps page_add_page)

lemma trace_executive_summary:
  "trace (executive_summary df p) = trace (add_page p) @ summary_ops (length df)"
  by (simp add: executive_summary_def summary_ops_def script_simps)

lemma page_executive_summary: "page (executive_summary df p) = page p + 1"
  by (simp add: executive_summary_def script_simps page_add_page)

lemma trace_word_frequency_page:
  "trace (word_frequency_page word_freq p) =
     trace (add_page p) @ table_head_ops @
     concat (map word_frequency_row_ops (take 20 word_freq))"
  by (simp add: word_frequency_page_def table_head_ops_def script_simps
      trace_word_frequency_rows)

lemma page_word_frequency_page: "page (word_frequency_page word_freq p) = page p + 1"
  by (simp add: word_frequency_page_def script_simps page_word_frequency_rows page_add_page)

lemma trace_appendix_page:
  "trace (appendix_page df p) = trace (add_page p) @ appendix_head_ops @ map appendix_entry_op df"
  by (simp add: appendix_page_def appendix_head_ops_def script_simps trace_appendix_entries)

lemma page_appendix_page: "page (appendix_page df p) = page p + 1"
  by (simp add: appendix_page_def script_simps page_appendix_entries page_add_page)

lemma generate_pdf_trace:
  "generate_pdf df word_freq =
     SetAutoPageBreak True 15 # AddPage # header_ops @ cover_ops @
     footer_ops 1 @ AddPage # header_ops @ summary_ops (length df) @
     footer_ops 2 @ AddPage # header_ops @ table_head_ops @
       concat (map word_frequency_row_ops (take 20 word_freq)) @
     footer_ops 3 @ AddPage # header_ops @ appendix_head_ops @ map appendix_entry_op df @
     footer_ops 4"
  by (simp add: generate_pdf_def pdf_output_def new_pdf_def script_simps
      trace_appendix_page page_appendix_page trace_word_frequency_page page_word_frequency_page
      trace_executive_summary page_executive_summary trace_cover_page page_cover_page
      trace_add_page page_add_page trace_footer eval_nat_numeral)

lemma draw_texts_Cons: "draw_texts (d # ds) = texts_of d @ draw_texts ds"
  by (simp add: draw_texts_def)

lemma draw_texts_Nil: "draw_texts [] = []"
  by (simp add: draw_texts_def)

lemma draw_texts_header: "draw_texts header_ops = [header_text]"
  by (simp add: header_ops_def header_text_def draw_texts_Cons draw_texts_Nil)

lemma draw_texts_footer: "draw_texts (footer_ops n) = [footer_text n]"
  by (simp add: footer_ops_def footer_text_def draw_texts_Cons draw_texts_Nil)

lemma draw_texts_cover:
  "draw_texts cover_ops =
     [Lit (ascii ''NLP Based Trending Topics Report''), Sanitize (PyStr cover_text)]"
  by (simp add: cover_ops_def draw_texts_Cons draw_texts_Nil)

lemma draw_texts_summary:
  "draw_texts (summary_ops n) =
     [Lit (ascii ''Executive Summary''), Sanitize (PyStr (summary_text n))]"
  by (simp add: summary_ops_def draw_texts_Cons draw_texts_Nil)

lemma draw_texts_table_head:
  "draw_texts table_head_ops =
     [Lit (ascii ''Word Frequency Analysis''), Lit (ascii ''Word''), Lit (ascii ''Frequency'')]"
  by (simp add: table_head_ops_def draw_texts_Cons draw_texts_Nil)

lemma draw_texts_appendix_head:
  "draw_texts appendix_head_ops = [Lit (ascii ''Appendix: Top Headlines'')]"
  by (simp add: appendix_head_ops_def draw_texts_Cons draw_texts_Nil)

lemma draw_texts_rows:
  "draw_texts (concat (map word_frequency_row_ops rows)) =
     concat (map (\<lambda>row. [Sanitize (word row), Str (frequency row)]) rows)"
  by (induction rows)
     (simp_all add: draw_texts_Nil draw_texts_append word_frequency_row_ops_def draw_texts_Cons)

lemma draw_texts_entries:
  "draw_texts (map appendix_entry_op df) =
     map (\<lambda>r. Cat (Lit (ascii ''- '')) (Sanitize (title r))) df"
  by (induction df) (simp_all add: draw_texts_Nil draw_texts_Cons appendix_entry_op_def)

lemma generate_pdf_texts:
  "draw_texts (generate_pdf df word_freq) =
     [header_text,
      Lit (ascii ''NLP Based Trending Topics Report''),
      Sanitize (PyStr cover_text),
      footer_text 1,
      header_text,
      Lit (ascii ''Executive Summary''),
      Sanitize (PyStr (summary_text (length df))),
      footer_text 2,
      header_text,
      Lit (ascii ''Word Frequency Analysis''),
      Lit (ascii ''Word''),
      Lit (ascii ''Frequency'')] @
     concat (map (\<lambda>row. [Sanitize (word row), Str (frequency row)]) (take 20 word_freq)) @
     [footer_text 3,
      header_text,
      Lit (ascii ''Appendix: Top Headlines'')] @
     map (\<lambda>r. Cat (Lit (ascii ''- '')) (Sanitize (title r))) df @
     [footer_text 4]"
  by (simp add: generate_pdf_trace draw_texts_Cons draw_texts_append draw_texts_header
      draw_texts_footer draw_texts_cover draw_texts_summary draw_texts_table_head
      draw_texts_appendix_head draw_texts_rows draw_texts_entries)

lemma encoding_safe_header: "encoding_safe header_text"
  by (simp add: header_text_def ascii_def)

lemma encoding_safe_footer: "encoding_safe (footer_text n)"
  by (simp add: footer_text_def ascii_def)

lemma encoding_safe_rows:
  "list_all encoding_safe (concat (map (\<lambda>row. [Sanitize (word row), Str (frequency row)]) rows))"
  by (induction rows) simp_all

lemma encoding_safe_entries:
  "list_all encoding_safe (map (\<lambda>r. Cat (Lit (ascii ''- '')) (Sanitize (title r))) df)"
  by (induction df) (simp_all add: ascii_def)

lemma generate_pdf_encoding_safe: "list_all encoding_safe (draw_texts (generate_pdf df word_freq))"
  by (simp add: generate_pdf_texts encoding_safe_header encoding_safe_footer encoding_safe_rows
      encoding_safe_entries)
     (simp add: ascii_def)

lemma spec_substitute_dropped:
  "255 < c \<Longrightarrow> c \<notin> set trigger_chars \<Longrightarrow> filter (\<lambda>c. c \<le> 255) (spec_substitute c) = []"
  by (simp add: spec_substitute_def trigger_chars_def)

lemma filter_concat_empty:
  "(\<And>x. x \<in> set s \<Longrightarrow> filter P (f x) = []) \<Longrightarrow> filter P (concat (map f s)) = []"
  by (induction s) auto

section \<open>Claims about the sanitizer\<close>

text \<open>
  Claim C1, as amended. For every text \<open>s\<close>, \<open>sanitize_text\<close> returns the string obtained from
  \<open>s\<close> by the literal substitutions with every character above code point 255 left out and
  all other characters kept in their order, so the result holds only code points up to 255;
  the empty string gives the empty string; and a string made only of characters above 255
  that are not among the seven substituted characters gives the empty string.
\<close>

theorem sanitize_text_latin1_only:
  "sanitize_text (PyStr s) = Inr (filter (\<lambda>c. c \<le> 255) (apply_rules replacements s))
   \<and> (\<forall>r. sanitize_text (PyStr s) = Inr r \<longrightarrow> (\<forall>c \<in> set r. c \<le> 255))
   \<and> sanitize_text (PyStr []) = Inr []
   \<and> ((\<forall>c \<in> set s. 255 < c \<and> c \<notin> set trigger_chars) \<longrightarrow> sanitize_text (PyStr s) = Inr [])"
proof (intro conjI allI impI)
  show "sanitize_text (PyStr s) = Inr (filter (\<lambda>c. c \<le> 255) (apply_rules replacements s))"
    by (rule sanitize_text_filter)
  show "\<forall>c \<in> set r. c \<le> 255" if "sanitize_text (PyStr s) = Inr r" for r
    using sanitize_text_low [OF that] by (simp add: list_all_iff)
  show "sanitize_text (PyStr []) = Inr []"
    by (simp add: sanitize_text_fixed)
  show "sanitize_text (PyStr s) = Inr []" if "\<forall>c \<in> set s. 255 < c \<and> c \<notin> set trigger_chars"
    using that
    by (simp add: sanitize_text_filter apply_replacements_spec filter_concat_empty
        spec_substitute_dropped)
qed

text \<open>
  The theorem at two inputs: two CJK ideographs vanish, and in a mixed string the Latin-1
  characters stay in order while the ideograph vanishes and the rupee sign becomes \<open>Rs\<close>.
\<close>

theorem sanitize_text_latin1_only_witness:
  "list_all (\<lambda>c. 255 < c \<and> c \<notin> set trigger_chars) [0x4E2D, 0x6587]
   \<and> sanitize_text (PyStr [0x4E2D, 0x6587]) = Inr []
   \<and> sanitize_text (PyStr [0x41, 0x4E2D, 0x20B9, 0xE9]) = Inr [0x41, 0x52, 0x73, 0xE9]"
proof -
  have h: "\<forall>c \<in> set [0x4E2D, 0x6587]. 255 < c \<and> c \<notin> set trigger_chars"
    by (simp add: trigger_chars_def)
  have a: "sanitize_text (PyStr [0x4E2D, 0x6587]) = Inr []"
    using sanitize_text_latin1_only [of "[0x4E2D, 0x6587]", THEN conjunct2, THEN conjunct2,
        THEN conjunct2] h
    by (rule mp)
  have b: "sanitize_text (PyStr [0x41, 0x4E2D, 0x20B9, 0xE9]) = Inr [0x41, 0x52, 0x73, 0xE9]"
    by (simp only: sanitize_text_latin1_only [of "[0x41, 0x4E2D, 0x20B9, 0xE9]", THEN conjunct1])
       (simp add: apply_replacements_spec spec_substitute_def ascii_def)
  from h a b show ?thesis by (simp add: list_all_iff)
qed

text \<open>
  Claim C1 as first stated says that any string made only of characters outside Latin-1
  gives the empty string. The one-character string holding the rupee sign (code point 0x20B9,
  above 255) gives \<open>Rs\<close> instead, because the substitutions run before the filter.
\<close>

theorem rupee_only_counterexample:
  "(255::nat) < 0x20B9
   \<and> sanitize_text (PyStr [0x20B9]) = Inr (ascii ''Rs'')
   \<and> sanitize_text (PyStr [0x20B9]) \<noteq> Inr []"
  by (simp add: sanitize_text_filter apply_replacements_spec spec_substitute_def ascii_def)

text \<open>
  Claim C2. Before the encoding filter, the loop over \<open>replacements\<close> replaces every rupee
  sign by \<open>Rs\<close>, every en dash and em dash by a hyphen, every curly single quote by an
  apostrophe and every curly double quote by a straight double quote, and leaves every other
  character as it is; the rupee sign followed by \<open>100\<close> is sanitized to \<open>Rs100\<close>.
\<close>

theorem sanitize_text_substitutions:
  "apply_rules replacements s = concat (map spec_substitute s)
   \<and> sanitize_text (PyStr s) = Inr (filter (\<lambda>c. c \<le> 255) (concat (map spec_substitute s)))
   \<and> sanitize_text (PyStr (0x20B9 # ascii ''100'')) = Inr (ascii ''Rs100'')"
  by (simp add: sanitize_text_filter apply_replacements_spec)
     (simp add: spec_substitute_def ascii_def)

text \<open>
  Claim C3. \<open>sanitize_text\<close> never raises: on every input it returns a string, and on every
  input that is not a \<open>str\<close> it returns the empty string.
\<close>

theorem sanitize_text_total:
  "(\<exists>r. sanitize_text x = Inr r) \<and> (\<not> isinstance_str x \<longrightarrow> sanitize_text x = Inr [])"
  by (cases x) (simp_all add: sanitize_text_filter)

text \<open>The theorem at \<open>None\<close>, at a number and at a list.\<close>

theorem sanitize_text_total_witness:
  "\<not> isinstance_str PyNone \<and> sanitize_text PyNone = Inr []
   \<and> \<not> isinstance_str (PyInt 42) \<and> sanitize_text (PyInt 42) = Inr []
   \<and> \<not> isinstance_str (PyList [PyStr [0x41]]) \<and> sanitize_text (PyList [PyStr [0x41]]) = Inr []"
  using sanitize_text_total [of PyNone] sanitize_text_total [of "PyInt 42"]
    sanitize_text_total [of "PyList [PyStr [0x41]]"]
  by simp

text \<open>
  Claim C4. Sanitizing the result of \<open>sanitize_text\<close> again gives the same string.
\<close>

theorem sanitize_text_idempotent:
  "(case sanitize_text (PyStr s) of Inl e \<Rightarrow> Inl e | Inr r \<Rightarrow> sanitize_text (PyStr r))
   = sanitize_text (PyStr s)"
proof -
  obtain r where r: "sanitize_text (PyStr s) = Inr r"
    by (simp add: sanitize_text_filter)
  from sanitize_text_low [OF r] have "sanitize_text (PyStr r) = Inr r"
    by (rule sanitize_text_fixed)
  with r show ?thesis by simp
qed

lemma rules_ok_perm: "set rules = set rules' \<Longrightarrow> rules_ok rules' \<Longrightarrow> rules_ok rules"
  by (simp add: rules_ok_def list_all_iff)

lemma distinct_replacement_keys: "distinct (map fst replacements)"
  by (simp add: replacements_def)

text \<open>
  Claim C5. Running the seven whole-string replacements in any order (any permutation of
  the rule table) gives the same string as the order of the source, and in every such order
  no rule's output contains a character that is the key of a rule.
\<close>

theorem replacements_order_insensitive:
  assumes "mset rules = mset replacements"
  shows "apply_rules rules s = apply_rules replacements s \<and> rules_ok rules"
proof -
  from assms have sets: "set rules = set replacements"
    by (rule mset_eq_setD)
  then have ok: "rules_ok rules"
    using rules_ok_replacements by (rule rules_ok_perm)
  from assms have "mset (map fst rules) = mset (map fst replacements)"
    by simp
  then have "distinct (map fst rules)"
    using distinct_replacement_keys by (metis mset_eq_imp_distinct_iff)
  then have "map_of rules = map_of replacements"
    using distinct_replacement_keys sets by (simp only: map_of_inject_set)
  then have "rule_subst rules = rule_subst replacements"
    by (simp add: rule_subst_def fun_eq_iff)
  then show ?thesis
    using ok rules_ok_replacements by (simp add: apply_rules_charwise)
qed

text \<open>The theorem at the reversed table, on a string with four of the seven characters.\<close>

theorem replacements_order_insensitive_witness:
  "mset (rev replacements) = mset replacements
   \<and> apply_rules (rev replacements) [0x201C, 0x20B9, 0x35, 0x2014, 0x201D]
     = apply_rules replacements [0x201C, 0x20B9, 0x35, 0x2014, 0x201D]
   \<and> apply_rules (rev replacements) [0x201C, 0x20B9, 0x35, 0x2014, 0x201D]
     = [0x22, 0x52, 0x73, 0x35, 0x2D, 0x22]"
  using replacements_order_insensitive [of "rev replacements" "[0x201C, 0x20B9, 0x35, 0x2014, 0x201D]"]
  by (simp add: apply_replacements_spec spec_substitute_def ascii_def)

text \<open>
  Claim C10. Each of the seven keys of \<open>replacements\<close> is a character above code point 255,
  and \<open>sanitize_text\<close> returns unchanged every string whose characters are all at most 255.
\<close>

theorem sanitize_text_identity_latin1:
  "list_all (\<lambda>c. 255 < c) trigger_chars
   \<and> map fst replacements = map (\<lambda>c. [c]) trigger_chars
   \<and> ((\<forall>c \<in> set s. c \<le> 255) \<longrightarrow> sanitize_text (PyStr s) = Inr s)"
  by (simp add: trigger_chars_def replacements_def sanitize_text_fixed list_all_iff)

text \<open>The theorem at a string with ASCII letters, two Latin-1 characters and NUL.\<close>

theorem sanitize_text_identity_latin1_witness:
  "list_all (\<lambda>c. c \<le> (255::nat)) [0x63, 0x61, 0x66, 0xE9, 0xFF, 0x00]
   \<and> sanitize_text (PyStr [0x63, 0x61, 0x66, 0xE9, 0xFF, 0x00]) = Inr [0x63, 0x61, 0x66, 0xE9, 0xFF, 0x00]"
  using sanitize_text_identity_latin1 [of "[0x63, 0x61, 0x66, 0xE9, 0xFF, 0x00]"]
  by simp

section \<open>Claims about the report\<close>

text \<open>
  Claim C6, as amended. The strings handed to draw operations during a report generation
  are, in order, exactly those listed: the \<open>word\<close> field of each table row, the \<open>title\<close> field
  of each appendix entry (after the literal prefix \<open>- \<close>) and the cover and summary
  paragraphs are outputs of \<open>sanitize_text\<close>; the header, the footer, the page titles and the
  column captions are fixed ASCII literals, and the page number and the frequency are decimal
  strings, all handed over without \<open>sanitize_text\<close>. Every one of these strings holds only
  code points up to 255, is accepted by a strict Latin-1 encoding and is left unchanged by
  \<open>sanitize_text\<close>, so no text outside Latin-1 reaches the layout engine; this holds for the
  header and for the footer of any page number.
\<close>

theorem draw_texts_sanitized_or_fixed:
  "draw_texts (generate_pdf df word_freq) =
     [header_text,
      Lit (ascii ''NLP Based Trending Topics Report''),
      Sanitize (PyStr cover_text),
      footer_text 1,
      header_text,
      Lit (ascii ''Executive Summary''),
      Sanitize (PyStr (summary_text (length df))),
      footer_text 2,
      header_text,
      Lit (ascii ''Word Frequency Analysis''),
      Lit (ascii ''Word''),
      Lit (ascii ''Frequency'')] @
     concat (map (\<lambda>row. [Sanitize (word row), Str (frequency row)]) (take 20 word_freq)) @
     [footer_text 3,
      header_text,
      Lit (ascii ''Appendix: Top Headlines'')] @
     map (\<lambda>r. Cat (Lit (ascii ''- '')) (Sanitize (title r))) df @
     [footer_text 4]
   \<and> list_all encoding_safe (draw_texts (generate_pdf df word_freq))
   \<and> encoding_safe header_text \<and> encoding_safe (footer_text n)
   \<and> (\<exists>ss. rendered_texts (draw_texts (generate_pdf df word_freq)) = Inr ss
         \<and> list_all engine_accepts ss)"
  using generate_pdf_texts [of df word_freq] generate_pdf_encoding_safe [of df word_freq]
    encoding_safe_rendered [OF generate_pdf_encoding_safe [of df word_freq]]
    encoding_safe_header encoding_safe_footer [of n]
  by (intro conjI)

text \<open>
  The theorem on a report with one headline, which holds an em dash and a rupee sign, and
  one word: the nineteen strings the layout engine receives.
\<close>

theorem draw_texts_sanitized_or_fixed_witness:
  "rendered_texts (draw_texts (generate_pdf example_topics example_words)) =
     Inr [ascii ''Trending Topics NLP Analysis Report'',
          ascii ''NLP Based Trending Topics Report'',
          cover_text,
          ascii ''Page 1'',
          ascii ''Trending Topics NLP Analysis Report'',
          ascii ''Executive Summary'',
          summary_text 1,
          ascii ''Page 2'',
          ascii ''Trending Topics NLP Analysis Report'',
          ascii ''Word Frequency Analysis'',
          ascii ''Word'',
          ascii ''Frequency'',
          ascii ''rupee'',
          ascii ''12'',
          ascii ''Page 3'',
          ascii ''Trending Topics NLP Analysis Report'',
          ascii ''Appendix: Top Headlines'',
          ascii ''- Markets - Rs5'',
          ascii ''Page 4'']"
proof -
  have a: "sanitize_text (PyStr cover_text) = Inr cover_text"
    by (rule sanitize_text_fixed) (simp add: cover_text_def ascii_def)
  have b: "sanitize_text (PyStr (summary_text (Suc 0))) = Inr (summary_text (Suc 0))"
    by (rule sanitize_text_fixed) (simp add: summary_text_def ascii_def str_int_def str_nat.simps)
  have c: "sanitize_text (PyStr (ascii ''rupee'')) = Inr (ascii ''rupee'')"
    by (rule sanitize_text_fixed) (simp add: ascii_def)
  have d: "sanitize_text (PyStr example_title) = Inr (ascii ''Markets - Rs5'')"
    by (simp add: example_title_def sanitize_text_filter apply_replacements_spec
        spec_substitute_def ascii_def)
  have e: "str_int 1 = ascii ''1''" "str_int 2 = ascii ''2''" "str_int 3 = ascii ''3''"
    "str_int 4 = ascii ''4''" "str_int 12 = ascii ''12''"
    by (simp_all add: str_int_def str_nat.simps ascii_def)
  show ?thesis
    by (simp only: draw_texts_sanitized_or_fixed [of example_topics example_words 0, THEN conjunct1])
       (simp add: example_topics_def example_words_def header_text_def footer_text_def a b c d e,
        simp add: ascii_def)
qed

text \<open>
  Claim C6 as first stated says that every text handed to a draw operation, the header cell
  included, has passed through \<open>sanitize_text\<close>. On a report with one headline and one word,
  the first text drawn is the header literal, which the source hands to \<open>cell\<close> directly.
\<close>

theorem header_not_sanitized_counterexample:
  "hd (draw_texts (generate_pdf example_topics example_words)) =
     Lit (ascii ''Trending Topics NLP Analysis Report'')
   \<and> \<not> via_sanitizer (Lit (ascii ''Trending Topics NLP Analysis Report''))
   \<and> \<not> list_all via_sanitizer (draw_texts (generate_pdf example_topics example_words))"
  by (simp add: generate_pdf_texts header_text_def)

text \<open>
  Claim C7. The calls of the word-frequency page are those of a new page, the page title
  and the bordered caption cells \<open>Word\<close> and \<open>Frequency\<close>, and then, for each of the first
  \<open>min 20 (length word_freq)\<close> rows of the table in their order, one bordered cell with
  \<open>sanitize_text\<close> of the \<open>word\<close> field, one bordered cell with \<open>str\<close> of the \<open>frequency\<close> field,
  not sanitized, and a line break. \<open>str\<close> of a non-negative frequency is its string of
  decimal digits.
\<close>

theorem word_frequency_page_rows:
  "trace (word_frequency_page word_freq p) =
     trace (add_page p) @
     [SetFont ''Helvetica'' Bold 14,
      Cell ToRightMargin 10 (Lit (ascii ''Word Frequency Analysis'')) 0 AlignLeft True,
      Ln (Some 5),
      SetFont ''Helvetica'' Bold 10,
      Cell (UsableTenths 6) 8 (Lit (ascii ''Word'')) 1 AlignLeft False,
      Cell (UsableTenths 4) 8 (Lit (ascii ''Frequency'')) 1 AlignLeft False,
      Ln None,
      SetFont ''Helvetica'' Regular 10] @
     concat (map (\<lambda>row.
        [Cell (UsableTenths 6) 8 (Sanitize (word row)) 1 AlignLeft False,
         Cell (UsableTenths 4) 8 (Str (frequency row)) 1 AlignLeft False,
         Ln None]) (take 20 word_freq))
   \<and> length (take 20 word_freq) = min 20 (length word_freq)
   \<and> text_value (Sanitize (word row)) = sanitize_text (word row)
   \<and> text_value (Str (frequency row)) = Inr (str_int (frequency row))
   \<and> str_int (int k) = str_nat k
   \<and> list_all is_digit (str_nat k)
   \<and> decimal_value (str_nat k) = k"
proof -
  have "word_frequency_row_ops = (\<lambda>row.
        [Cell (UsableTenths 6) 8 (Sanitize (word row)) 1 AlignLeft False,
         Cell (UsableTenths 4) 8 (Str (frequency row)) 1 AlignLeft False,
         Ln None])"
    by (simp add: fun_eq_iff word_frequency_row_ops_def)
  then show ?thesis
    using trace_word_frequency_page [of word_freq p]
    by (simp add: table_head_ops_def str_nat_digits decimal_value_str_nat str_int_nonneg
        min.commute)
qed

text \<open>
  The theorem on a table of one word, drawn on the first page of a new document, and the
  count of rows drawn for a table of 25 rows.
\<close>

theorem word_frequency_page_rows_witness:
  "trace (word_frequency_page example_words new_pdf) =
     AddPage # header_ops @ table_head_ops @
     [Cell (UsableTenths 6) 8 (Sanitize (PyStr (ascii ''rupee''))) 1 AlignLeft False,
      Cell (UsableTenths 4) 8 (Str 12) 1 AlignLeft False,
      Ln None]
   \<and> text_value (Sanitize (PyStr (ascii ''rupee''))) = Inr (ascii ''rupee'')
   \<and> text_value (Str 12) = Inr (ascii ''12'')
   \<and> length (take 20 (replicate 25 (hd example_words))) = 20"
proof -
  have a: "sanitize_text (PyStr (ascii ''rupee'')) = Inr (ascii ''rupee'')"
    by (rule sanitize_text_fixed) (simp add: ascii_def)
  have b: "str_int 12 = ascii ''12''"
    by (simp add: str_int_def str_nat.simps ascii_def)
  show ?thesis
    using word_frequency_page_rows [of example_words new_pdf "hd example_words" 0]
      word_frequency_page_rows [of "replicate 25 (hd example_words)" new_pdf "hd example_words" 0]
    by (simp add: a b example_words_def trace_add_page new_pdf_def table_head_ops_def)
qed

text \<open>
  Claim C8. The calls of the appendix page are those of a new page and the page title, and
  then one \<open>multi_cell\<close> for each row of the headlines table, in the order of the table, whose
  text is \<open>- \<close> followed by \<open>sanitize_text\<close> of the row's \<open>title\<close>.
\<close>

theorem appendix_page_entries:
  "trace (appendix_page df p) =
     trace (add_page p) @
     [SetFont ''Helvetica'' Bold 14,
      Cell ToRightMargin 10 (Lit (ascii ''Appendix: Top Headlines'')) 0 AlignLeft True,
      SetFont ''Helvetica'' Regular 10] @
     map (\<lambda>r. MultiCell (UsableTenths 10) 6 (Cat (Lit (ascii ''- '')) (Sanitize (title r)))) df
   \<and> (\<exists>s. sanitize_text (title r) = Inr s
         \<and> text_value (Cat (Lit (ascii ''- '')) (Sanitize (title r))) = Inr (ascii ''- '' @ s))"
proof -
  have "appendix_entry_op =
      (\<lambda>r. MultiCell (UsableTenths 10) 6 (Cat (Lit (ascii ''- '')) (Sanitize (title r))))"
    by (simp add: fun_eq_iff appendix_entry_op_def)
  moreover obtain s where "sanitize_text (title r) = Inr s"
    using sanitize_text_returns by blast
  ultimately show ?thesis
    using trace_appendix_page [of df p] by (simp add: appendix_head_ops_def)
qed

text \<open>
  The theorem on one headline with an em dash and a rupee sign: the entry reads
  \<open>- Markets - Rs5\<close>.
\<close>

theorem appendix_page_entries_witness:
  "trace (appendix_page example_topics new_pdf) =
     AddPage # header_ops @ appendix_head_ops @
     [MultiCell (UsableTenths 10) 6 (Cat (Lit (ascii ''- '')) (Sanitize (title (hd example_topics))))]
   \<and> text_value (Cat (Lit (ascii ''- '')) (Sanitize (title (hd example_topics)))) =
       Inr (ascii ''- Markets - Rs5'')"
proof -
  have a: "sanitize_text (title (hd example_topics)) = Inr (ascii ''Markets - Rs5'')"
    by (simp add: example_topics_def example_title_def sanitize_text_filter
        apply_replacements_spec spec_substitute_def ascii_def)
  have b: "trace (appendix_page example_topics new_pdf) =
     AddPage # header_ops @ appendix_head_ops @
     [MultiCell (UsableTenths 10) 6 (Cat (Lit (ascii ''- '')) (Sanitize (title (hd example_topics))))]"
    using appendix_page_entries [of example_topics new_pdf "hd example_topics"]
    by (simp add: example_topics_def trace_add_page new_pdf_def appendix_head_ops_def)
  show ?thesis using a b by (simp add: ascii_def)
qed

text \<open>
  Claim C9. When either CSV file is missing or cannot be parsed, \<open>load_data\<close> raises, the
  script shows the error message and stops: the page ends with the error, shows neither the
  generate button nor a download button, and no file is written.
\<close>

theorem load_failure_stops:
  assumes "\<not> loadable (trending_topics_csv d) \<or> \<not> loadable (word_frequency_table_csv d)"
  shows "(\<exists>e. load_data d = Inl e)
   \<and> run_app d clicked =
       \<lparr>ui = page_top @ [Error (ascii ''CSV files not found or invalid.'')],
        files = d, stopped = True\<rparr>
   \<and> \<not> list_ex is_button (ui (run_app d clicked))
   \<and> \<not> list_ex is_download (ui (run_app d clicked))
   \<and> files (run_app d clicked) = d"
proof -
  from assms obtain e where e: "load_data d = Inl e"
    by (cases "trending_topics_csv d"; cases "word_frequency_table_csv d")
       (auto simp: load_data_def)
  then have "run_app d clicked =
       \<lparr>ui = page_top @ [Error (ascii ''CSV files not found or invalid.'')],
        files = d, stopped = True\<rparr>"
    by (simp add: run_app_def)
  with e show ?thesis by (simp add: page_top_def)
qed

text \<open>
  The theorem on a disk without \<open>trending_topics.csv\<close>, with the button pressed: the report
  file of an earlier run is still what it was, and nothing is offered.
\<close>

theorem load_failure_stops_witness:
  "\<not> loadable (trending_topics_csv
       \<lparr>trending_topics_csv = Missing, word_frequency_table_csv = Table example_words,
        report_pdf = None\<rparr>)
   \<and> stopped (run_app
       \<lparr>trending_topics_csv = Missing, word_frequency_table_csv = Table example_words,
        report_pdf = None\<rparr> True)
   \<and> report_pdf (files (run_app
       \<lparr>trending_topics_csv = Missing, word_frequency_table_csv = Table example_words,
        report_pdf = None\<rparr> True)) = None"
  using load_failure_stops [of
      "\<lparr>trending_topics_csv = Missing, word_frequency_table_csv = Table example_words,
        report_pdf = None\<rparr>" True]
  by simp

end
